(* ===== verification/Frame.thy ===== *)
theory Frame
  imports Prelude "HOL-Library.List_Lexorder" "HOL-Library.Char_ord"
    "HOL-Library.Product_Lexorder"
begin

text \<open>
  The pandas DataFrame as the dashboard uses it: a list of column names and a list of
  rows of cells, row order as read. A cell is a missing value (NaN), an integer or a
  string; pandas compares the keys of one column with each other, so cells are given a
  linear order (missing values first, then numbers, then strings), in which two numbers
  and two strings compare as Python compares them. Column access \<open>df[c]\<close> raises
  \<open>KeyError\<close> for an absent column.
\<close>

datatype cell = NA | Num int | Str string

fun cell_key :: "cell \<Rightarrow> nat \<times> int \<times> string" where
  "cell_key NA = (0, 0, [])"
| "cell_key (Num i) = (1, i, [])"
| "cell_key (Str s) = (2, 0, s)"

lemma cell_key_inj: "cell_key x = cell_key y \<Longrightarrow> x = y"
  by (cases x; cases y) auto

instantiation cell :: linorder
begin

definition less_eq_cell :: "cell \<Rightarrow> cell \<Rightarrow> bool" where
  "less_eq_cell x y \<longleftrightarrow> cell_key x \<le> cell_key y"

definition less_cell :: "cell \<Rightarrow> cell \<Rightarrow> bool" where
  "less_cell x y \<longleftrightarrow> cell_key x < cell_key y"

instance
proof
  fix x y z :: cell
  show "x < y \<longleftrightarrow> x \<le> y \<and> \<not> y \<le> x"
    by (auto simp: less_eq_cell_def less_cell_def)
  show "x \<le> x" by (simp add: less_eq_cell_def)
  show "x \<le> y \<Longrightarrow> y \<le> z \<Longrightarrow> x \<le> z"
    by (auto simp: less_eq_cell_def)
  show "x \<le> y \<Longrightarrow> y \<le> x \<Longrightarrow> x = y"
    by (auto simp: less_eq_cell_def intro: cell_key_inj)
  show "x \<le> y \<or> y \<le> x"
    by (auto simp: less_eq_cell_def)
qed

end

lemma cell_le_simps [simp]:
  "NA \<le> x" "Num a \<le> Num b \<longleftrightarrow> a \<le> b" "Str u \<le> Str v \<longleftrightarrow> u \<le> v"
  "Num a \<le> Str u" "\<not> Str u \<le> Num a" "\<not> Num a \<le> NA" "\<not> Str u \<le> NA"
  by (cases x, auto simp: less_eq_cell_def)

record dataframe =
  df_columns :: "string list"
  df_rows :: "cell list list"

definition empty_frame :: dataframe where
  "empty_frame = \<lparr>df_columns = [], df_rows = []\<rparr>"

definition has_column :: "dataframe \<Rightarrow> string \<Rightarrow> bool" where
  "has_column df c \<longleftrightarrow> c \<in> set (df_columns df)"

definition get_column :: "dataframe \<Rightarrow> string \<Rightarrow> exn + cell list" where
  "get_column df c =
     (case index_of c (df_columns df) of
        None \<Rightarrow> Inl (KeyError c)
      | Some i \<Rightarrow> Inr (map (\<lambda>r. r ! i) (df_rows df)))"

definition df_empty :: "dataframe \<Rightarrow> bool" where
  "df_empty df \<longleftrightarrow> df_rows df = [] \<or> df_columns df = []"

definition shape :: "dataframe \<Rightarrow> nat \<times> nat" where
  "shape df = (length (df_rows df), length (df_columns df))"

definition head :: "nat \<Rightarrow> dataframe \<Rightarrow> dataframe" where
  "head n df = df\<lparr>df_rows := take n (df_rows df)\<rparr>"

subsection \<open>Column access and the frame operations\<close>

lemma df_empty_empty_frame [simp]: "df_empty empty_frame"
  by (simp add: df_empty_def empty_frame_def)

lemma get_column_present:
  "has_column df c \<Longrightarrow> \<exists>s. get_column df c = Inr s \<and> length s = length (df_rows df)"
  by (auto simp: get_column_def has_column_def split: option.split)

lemma get_column_absent:
  "\<not> has_column df c \<Longrightarrow> get_column df c = Inl (KeyError c)"
  by (simp add: get_column_def has_column_def)

lemma get_column_Inr_has_column:
  "get_column df c = Inr s \<Longrightarrow> has_column df c"
  by (auto simp: get_column_def has_column_def split: option.splits dest: index_of_Some)

end
