(* ===== verification/Counts.thy ===== *)
theory Counts
  imports Frame
begin

text \<open>
  The two pandas aggregations of the analysis page. \<open>Series.value_counts()\<close> drops the
  missing values, counts every distinct value in one pass over the column with a hash table
  that remembers first insertion (\<open>count_pass\<close>, one \<open>bump_count\<close> per row), and sorts
  the pairs by descending count (\<open>value_counts\<close>; the model's sort is stable, while
  pandas' quicksort leaves the order of equal counts unspecified, so no lemma below
  depends on it);
  \<open>Series.head(n)\<close> keeps the first \<open>n\<close> (\<open>top_counts\<close>).
  \<open>DataFrame.groupby(c).size()\<close> drops the rows whose key is missing and lists each group
  with its size, keys in ascending order (\<open>groupby_size\<close>). The reference
  \<open>counts_ref\<close> states the counts directly, and the abstract specification
  \<open>counts_mset\<close> reads any list of (value, count) pairs as the multiset of values it stands
  for: both aggregations refine the multiset of the non-missing cells.
\<close>

definition dropna :: "cell list \<Rightarrow> cell list" where
  "dropna s = filter (\<lambda>c. c \<noteq> NA) s"

fun bump_count :: "'a \<Rightarrow> ('a \<times> nat) list \<Rightarrow> ('a \<times> nat) list" where
  "bump_count x [] = [(x, 1)]"
| "bump_count x ((k, n) # ps) =
     (if k = x then (k, Suc n) # ps else (k, n) # bump_count x ps)"

fun count_pass :: "('a \<times> nat) list \<Rightarrow> 'a list \<Rightarrow> ('a \<times> nat) list" where
  "count_pass acc [] = acc"
| "count_pass acc (x # xs) = count_pass (bump_count x acc) xs"

definition value_counts :: "cell list \<Rightarrow> (cell \<times> nat) list" where
  "value_counts s = sort_key (\<lambda>p. - int (snd p)) (count_pass [] (dropna s))"

definition top_counts :: "nat \<Rightarrow> cell list \<Rightarrow> (cell \<times> nat) list" where
  "top_counts n s = take n (value_counts s)"

definition groupby_size :: "cell list \<Rightarrow> (cell \<times> nat) list" where
  "groupby_size s = sort_key fst (count_pass [] (dropna s))"

definition counts_ref :: "'a list \<Rightarrow> ('a \<times> nat) list" where
  "counts_ref xs = map (\<lambda>k. (k, count_list xs k)) (first_seen xs)"

definition counts_mset :: "('a \<times> nat) list \<Rightarrow> 'a multiset" where
  "counts_mset ps = sum_mset (image_mset (\<lambda>(k, n). replicate_mset n k) (mset ps))"

subsection \<open>The counting pass computes the reference counts\<close>

lemma bump_count_map:
  "distinct ks \<Longrightarrow> bump_count x (map (\<lambda>k. (k, f k)) ks) =
     (if x \<in> set ks then map (\<lambda>k. (k, if k = x then Suc (f k) else f k)) ks
      else map (\<lambda>k. (k, f k)) ks @ [(x, 1)])"
  by (induction ks) auto

lemma bump_count_counts_ref:
  "bump_count x (counts_ref ys) = counts_ref (ys @ [x])"
  by (auto simp: counts_ref_def bump_count_map first_seen_snoc)

lemma count_pass_counts_ref:
  "count_pass (counts_ref ys) xs = counts_ref (ys @ xs)"
proof (induction xs arbitrary: ys)
  case Nil
  then show ?case by simp
next
  case (Cons x xs)
  have "count_pass (counts_ref ys) (x # xs) = count_pass (counts_ref (ys @ [x])) xs"
    by (simp add: bump_count_counts_ref)
  also have "\<dots> = counts_ref (ys @ x # xs)"
    using Cons.IH by simp
  finally show ?case .
qed

lemma counts_ref_Nil [simp]: "counts_ref [] = []"
  by (simp add: counts_ref_def)

lemma value_counts_ref:
  "value_counts s = sort_key (\<lambda>p. - int (snd p)) (counts_ref (dropna s))"
  using count_pass_counts_ref [of "[]" "dropna s"] by (simp add: value_counts_def)

lemma groupby_size_ref: "groupby_size s = sort_key fst (counts_ref (dropna s))"
  using count_pass_counts_ref [of "[]" "dropna s"] by (simp add: groupby_size_def)

subsection \<open>Facts on the reference counts\<close>

lemma set_counts_ref [count_simps]:
  "(k, m) \<in> set (counts_ref xs) \<longleftrightarrow> k \<in> set xs \<and> m = count_list xs k"
  by (auto simp: counts_ref_def)

lemma distinct_keys_counts_ref [count_simps]: "distinct (map fst (counts_ref xs))"
  by (simp add: counts_ref_def comp_def)

lemma count_counts_mset_map:
  "distinct ks \<Longrightarrow>
     count (counts_mset (map (\<lambda>k. (k, f k)) ks)) a = (if a \<in> set ks then f a else 0)"
  by (induction ks) (auto simp: counts_mset_def)

lemma counts_mset_counts_ref [count_simps]: "counts_mset (counts_ref xs) = mset xs"
  by (simp add: multiset_eq_iff counts_ref_def count_counts_mset_map count_mset
      count_list_0_iff)

lemma counts_mset_perm:
  "mset ps = mset qs \<Longrightarrow> counts_mset ps = counts_mset qs"
  by (simp add: counts_mset_def)

lemma size_counts_mset: "size (counts_mset ps) = (\<Sum>p\<leftarrow>ps. snd p)"
  by (induction ps) (auto simp: counts_mset_def)

lemma count_dropna [count_simps]: "k \<noteq> NA \<Longrightarrow> count_list (dropna s) k = count_list s k"
  by (induction s) (auto simp: dropna_def)

lemma set_dropna [count_simps]: "k \<in> set (dropna s) \<longleftrightarrow> k \<in> set s \<and> k \<noteq> NA"
  by (auto simp: dropna_def)

lemma mset_value_counts: "mset (value_counts s) = mset (counts_ref (dropna s))"
  by (simp add: value_counts_ref)

lemma mset_groupby_size: "mset (groupby_size s) = mset (counts_ref (dropna s))"
  by (simp add: groupby_size_ref)

lemma pairs_counts_ref_dropna:
  "(k, m) \<in> set (counts_ref (dropna s)) \<longleftrightarrow> k \<noteq> NA \<and> 0 < m \<and> m = count_list s k"
  by (auto simp: count_simps)

lemma distinct_keys_perm:
  "mset ps = mset (counts_ref xs) \<Longrightarrow> distinct (map fst ps)"
  by (metis distinct_keys_counts_ref mset_eq_imp_distinct_iff mset_map)

lemma sorted_desc_sort_key:
  "sorted_wrt (\<ge>) (map snd (sort_key (\<lambda>p. - int (snd p)) ps))"
proof -
  have "sorted (map (\<lambda>p. - int (snd p)) (sort_key (\<lambda>p. - int (snd p)) ps))"
    by (rule sorted_sort_key)
  then show ?thesis by (simp add: sorted_wrt_map sorted_wrt_mono_rel)
qed

lemma sum_snd_value_counts: "(\<Sum>p\<leftarrow>value_counts s. snd p) = length (dropna s)"
  by (metis size_counts_mset counts_mset_perm [OF mset_value_counts] counts_mset_counts_ref
      size_mset)

lemma sum_snd_take_le: "(\<Sum>p\<leftarrow>take n ps. snd p) \<le> (\<Sum>p\<leftarrow>ps. (snd p :: nat))"
proof -
  have "(\<Sum>p\<leftarrow>ps. snd p) = (\<Sum>p\<leftarrow>take n ps. snd p) + (\<Sum>p\<leftarrow>drop n ps. snd p)"
    by (metis append_take_drop_id map_append sum_list_append)
  then show ?thesis by simp
qed

subsection \<open>value_counts\<close>

text \<open>C2: the counts of \<open>value_counts\<close> are non-increasing along the result.\<close>

theorem value_counts_nonincreasing: "sorted_wrt (\<ge>) (map snd (value_counts s))"
  by (simp add: value_counts_def sorted_desc_sort_key)

text \<open>C3: \<open>value_counts\<close> refines the multiset of the column's non-missing values:
  value \<open>k\<close> with count \<open>m\<close> stands for \<open>m\<close> copies of \<open>k\<close>, and together the
  pairs stand for exactly the non-missing cells.\<close>

theorem value_counts_refines: "counts_mset (value_counts s) = mset (dropna s)"
proof -
  have "mset (value_counts s) = mset (counts_ref (dropna s))"
    using count_pass_counts_ref [of "[]" "dropna s"] by (simp add: value_counts_def)
  then show ?thesis by (simp add: counts_mset_perm count_simps)
qed

text \<open>C21: a pair \<open>(k, m)\<close> is in \<open>value_counts s\<close> exactly when \<open>k\<close> is a
  non-missing value occurring \<open>m > 0\<close> times in \<open>s\<close>; no value is listed twice.\<close>

theorem value_counts_pairs:
  "((k, m) \<in> set (value_counts s) \<longleftrightarrow> k \<noteq> NA \<and> 0 < m \<and> m = count_list s k) \<and>
   distinct (map fst (value_counts s))"
proof -
  have "set (value_counts s) = set (counts_ref (dropna s))"
    using mset_value_counts by (metis set_mset_mset)
  moreover have "distinct (map fst (value_counts s))"
    using mset_value_counts by (rule distinct_keys_perm)
  ultimately show ?thesis by (simp add: pairs_counts_ref_dropna)
qed

subsection \<open>The top-n ranking\<close>

text \<open>C4: \<open>value_counts().head(n)\<close> has at most \<open>n\<close> entries and its counts sum
  to at most the number of rows.\<close>

theorem top_counts_bounds:
  "length (top_counts n s) \<le> n \<and> (\<Sum>p\<leftarrow>top_counts n s. snd p) \<le> length s"
proof -
  have "(\<Sum>p\<leftarrow>top_counts n s. snd p) \<le> (\<Sum>p\<leftarrow>value_counts s. snd p)"
    unfolding top_counts_def by (rule sum_snd_take_le)
  also have "\<dots> \<le> length s"
    by (simp add: sum_snd_value_counts dropna_def)
  finally show ?thesis by (simp add: top_counts_def)
qed

text \<open>C5: every value ranked in the top \<open>n\<close> occurs at least as often as every value
  that \<open>value_counts\<close> lists after them.\<close>

theorem top_counts_most_frequent:
  assumes "p \<in> set (top_counts n s)" and "q \<in> set (drop n (value_counts s))"
  shows "snd q \<le> snd p"
proof -
  have "sorted_wrt (\<ge>) (map snd (take n (value_counts s)) @ map snd (drop n (value_counts s)))"
    using sorted_desc_sort_key [of "counts_ref (dropna s)"]
    by (metis append_take_drop_id map_append value_counts_ref)
  with assms show ?thesis by (auto simp: sorted_wrt_append top_counts_def)
qed

subsection \<open>groupby().size()\<close>

text \<open>C6: \<open>groupby(c).size()\<close> lists its keys in strictly ascending order, so no key
  twice.\<close>

theorem groupby_size_ascending: "sorted_wrt (<) (map fst (groupby_size s))"
proof -
  have "distinct (map fst (groupby_size s))"
    using mset_groupby_size by (rule distinct_keys_perm)
  moreover have "sorted (map fst (groupby_size s))"
    by (simp add: groupby_size_ref)
  ultimately show ?thesis by (simp add: strict_sorted_iff)
qed

text \<open>C7: a pair \<open>(k, m)\<close> is a group of \<open>groupby(c).size()\<close> exactly when the key
  \<open>k\<close> is not missing and \<open>m\<close> is its positive number of rows.\<close>

theorem groupby_size_pairs:
  "(k, m) \<in> set (groupby_size s) \<longleftrightarrow> k \<noteq> NA \<and> 0 < m \<and> m = count_list s k"
  using mset_groupby_size [of s] by (metis set_mset_mset pairs_counts_ref_dropna)

text \<open>C22: the group sizes refine the multiset of the non-missing keys.\<close>

theorem groupby_size_refines: "counts_mset (groupby_size s) = mset (dropna s)"
  by (simp add: counts_mset_perm [OF mset_groupby_size] count_simps)

theorem top_counts_most_frequent_witness:
  "(Str ''A'', 2) \<in> set (top_counts 1 [Str ''A'', Str ''B'', Str ''A'']) \<and>
   (Str ''B'', 1) \<in> set (drop 1 (value_counts [Str ''A'', Str ''B'', Str ''A''])) \<and>
   snd (Str ''B'', 1::nat) \<le> snd (Str ''A'', 2::nat)"
proof -
  have p: "(Str ''A'', 2) \<in> set (top_counts 1 [Str ''A'', Str ''B'', Str ''A''])"
    by (simp add: top_counts_def value_counts_def dropna_def)
  have q: "(Str ''B'', 1) \<in> set (drop 1 (value_counts [Str ''A'', Str ''B'', Str ''A'']))"
    by (simp add: value_counts_def dropna_def)
  show ?thesis using p q top_counts_most_frequent [OF p q] by simp
qed

end
