(* ===== verification/Streamlit.thy ===== *)
theory Streamlit
  imports Frame
begin

text \<open>
  What a Streamlit script does besides computing: it emits page elements in order, and an
  uncaught exception stops the script after the elements emitted so far. A statement of
  the script is modelled as an \<open>'a ui\<close>: the elements it emits and either the exception
  it raised or its value; \<open>ui_bind\<close> runs the rest of the script only after a normal
  return. \<^verbatim>\<open>st.cache_data\<close> on a function without arguments is \<open>cache_data\<close>: on a
  hit it returns the stored value without running the body, on a miss it runs the body and
  stores the value, and an exception is passed on and not stored. The elements the cached
  function emitted are stored with its value and replayed on every hit.
  \<open>st.columns(n)\<close> with a \<open>with\<close> block per column is one \<open>Columns\<close> element
  holding what each column received; a Python string with \<open>\\n\<close> separators is
  written \<open>unlines\<close> of its lines.
  Text of the source is kept with its non-ASCII letters transliterated (\<open>a\<close> for
  \<open>\<atilde>\<close>, no emoji); charts are the data handed to the plotting call.
\<close>

named_theorems ui_simps "evaluation of the output-and-exception sequencing"

datatype page = Home | Formacao | Skills | Analise

datatype element =
    Page_config string
  | Title string
  | Write string
  | Markdown string
  | Subheader string
  | Radio string "string list" nat
  | Error_box string
  | Dataframe dataframe
  | Write_shape string "nat \<times> nat"
  | Bar_chart "(cell \<times> nat) list"
  | Line_chart "(cell \<times> nat) list"
  | Pie_chart "(cell \<times> nat) list"
  | Choropleth "(cell \<times> nat) list"
  | Info string
  | Success string
  | Columns "element list list"

fun unlines :: "string list \<Rightarrow> string" where
  "unlines [] = []"
| "unlines [l] = l"
| "unlines (l # ls) = l @ CHR 0x0A # unlines ls"

fun is_error_box :: "element \<Rightarrow> bool" where
  "is_error_box (Error_box _) = True"
| "is_error_box _ = False"

type_synonym 'a ui = "element list \<times> (exn + 'a)"

definition ui_return :: "'a \<Rightarrow> 'a ui" where
  "ui_return a = ([], Inr a)"

definition emit :: "element list \<Rightarrow> unit ui" where
  "emit es = (es, Inr ())"

definition ui_lift :: "exn + 'a \<Rightarrow> 'a ui" where
  "ui_lift r = ([], r)"

definition ui_bind :: "'a ui \<Rightarrow> ('a \<Rightarrow> 'b ui) \<Rightarrow> 'b ui" where
  "ui_bind m f =
     (case snd m of
        Inl e \<Rightarrow> (fst m, Inl e)
      | Inr a \<Rightarrow> (fst m @ fst (f a), snd (f a)))"

definition ui_seq :: "unit ui \<Rightarrow> 'b ui \<Rightarrow> 'b ui" where
  "ui_seq m n = ui_bind m (\<lambda>_. n)"

definition cache_data :: "'v option \<Rightarrow> exn + 'v \<Rightarrow> (exn + 'v) \<times> 'v option" where
  "cache_data c r =
     (case c of
        Some v \<Rightarrow> (Inr v, Some v)
      | None \<Rightarrow> (case r of Inl e \<Rightarrow> (Inl e, None) | Inr v \<Rightarrow> (Inr v, Some v)))"

lemma ui_seq_emit [ui_simps]:
  "ui_seq (emit es) n = (es @ fst n, snd n)"
  by (simp add: ui_seq_def ui_bind_def emit_def)

lemma ui_seq_Inr [ui_simps]: "ui_seq (es, Inr a) n = (es @ fst n, snd n)"
  by (simp add: ui_seq_def ui_bind_def)

lemma ui_seq_return [ui_simps]: "ui_seq (ui_return ()) n = n"
  by (simp add: ui_seq_def ui_bind_def ui_return_def)

lemma ui_bind_lift_Inr [ui_simps]: "ui_bind (ui_lift (Inr a)) f = f a"
  by (simp add: ui_bind_def ui_lift_def)

lemma ui_bind_lift_Inl [ui_simps]: "ui_bind (ui_lift (Inl e)) f = ([], Inl e)"
  by (simp add: ui_bind_def ui_lift_def)

lemma ui_bind_emit [ui_simps]: "ui_bind (emit es) f = (es @ fst (f ()), snd (f ()))"
  by (simp add: ui_bind_def emit_def)

lemma ui_seq_raises [ui_simps]: "snd m = Inl e \<Longrightarrow> ui_seq m n = (fst m, Inl e)"
  by (simp add: ui_seq_def ui_bind_def)

lemma emit_simps [ui_simps]: "fst (emit es) = es" "snd (emit es) = Inr ()"
  "fst (ui_return a) = []" "snd (ui_return a) = Inr a"
  by (simp_all add: emit_def ui_return_def)

lemma cache_data_hit [simp]: "cache_data (Some v) r = (Inr v, Some v)"
  by (simp add: cache_data_def)

end
