(* ===== verification/Loader.thy ===== *)
theory Loader
  imports Streamlit
begin

text \<open>
  \<^verbatim>\<open>load_data\<close> (\<^verbatim>\<open>src/dashboard.py\<close>, lines 16--24) and the module-level call that
  caches it. The file system is a map from paths to what the path holds: a CSV file
  that parses to a table, a file that cannot be read, or one that does not parse.
  \<^verbatim>\<open>pd.read_csv\<close> is \<open>read_csv\<close>: \<open>FileNotFoundError\<close> for an absent path,
  \<open>PermissionError\<close> for an unreadable file, \<open>ParserError\<close> for a malformed one.
  \<open>load_data\<close> catches only \<open>FileNotFoundError\<close>: it then emits one error box and
  returns the empty DataFrame; every other exception propagates. Its cached form
  \<open>load_data_cached\<close> is \<open>cache_data\<close> applied to it.
\<close>

datatype file_entry = Csv dataframe | Unreadable | Malformed

type_synonym fs = "string \<Rightarrow> file_entry option"

type_synonym loaded = "element list \<times> dataframe"

definition data_path :: string where
  "data_path = ''Electric_Vehicle_Population_Data 2.csv''"

definition not_found_msg :: string where
  "not_found_msg = ''Erro: O arquivo 'Electric_Vehicle_Population_Data 2.csv' nao foi encontrado.''"

definition read_csv :: "fs \<Rightarrow> string \<Rightarrow> exn + dataframe" where
  "read_csv fs p =
     (case fs p of
        None \<Rightarrow> Inl (FileNotFoundError p)
      | Some Unreadable \<Rightarrow> Inl (PermissionError p)
      | Some Malformed \<Rightarrow> Inl (ParserError p)
      | Some (Csv df) \<Rightarrow> Inr df)"

definition load_data :: "fs \<Rightarrow> exn + loaded" where
  "load_data fs =
     (case read_csv fs data_path of
        Inr df \<Rightarrow> Inr ([], df)
      | Inl e \<Rightarrow>
          (case e of
             FileNotFoundError _ \<Rightarrow> Inr ([Error_box not_found_msg], empty_frame)
           | _ \<Rightarrow> Inl e))"

definition load_data_cached :: "loaded option \<Rightarrow> fs \<Rightarrow> (exn + loaded) \<times> loaded option" where
  "load_data_cached c fs = cache_data c (load_data fs)"

lemma load_data_cases:
  "load_data fs = Inr v \<Longrightarrow>
     (\<exists>df. fs data_path = Some (Csv df) \<and> v = ([], df)) \<or>
     (fs data_path = None \<and> v = ([Error_box not_found_msg], empty_frame))"
  by (auto simp: load_data_def read_csv_def split: option.splits file_entry.splits sum.splits exn.splits)

text \<open>C8: a missing data file is recovered locally: \<open>load_data\<close> emits exactly one
  error box naming the file and returns the empty DataFrame.\<close>

theorem load_data_missing_file:
  "fs data_path = None \<Longrightarrow> load_data fs = Inr ([Error_box not_found_msg], empty_frame)"
  by (simp add: load_data_def read_csv_def)

text \<open>C23: a readable file is returned as parsed, with no notice.\<close>

theorem load_data_readable:
  "fs data_path = Some (Csv df) \<Longrightarrow> load_data fs = Inr ([], df)"
  by (simp add: load_data_def read_csv_def)

text \<open>C9: \<open>load_data\<close> raises exactly when the file exists but cannot be read or
  parsed: only \<open>FileNotFoundError\<close> is caught.\<close>

theorem load_data_raises_iff:
  "isl (load_data fs) \<longleftrightarrow> fs data_path = Some Unreadable \<or> fs data_path = Some Malformed"
  by (auto simp: load_data_def read_csv_def split: option.splits file_entry.splits)

text \<open>C13: once a call of the cached loader has returned, every later call returns the
  identical table and notices and leaves the cache as it is, whatever the file system
  holds by then.\<close>

theorem load_data_cached_idempotent:
  "load_data_cached c fs1 = (Inr v, c') \<Longrightarrow> load_data_cached c' fs2 = (Inr v, c')"
  by (auto simp: load_data_cached_def cache_data_def split: option.splits sum.splits)

theorem load_data_missing_file_witness:
  "Map.empty data_path = None \<and>
   load_data Map.empty = Inr ([Error_box not_found_msg], empty_frame)"
  using load_data_missing_file [of Map.empty] by simp

theorem load_data_readable_witness:
  "[data_path \<mapsto> Csv empty_frame] data_path = Some (Csv empty_frame) \<and>
   load_data [data_path \<mapsto> Csv empty_frame] = Inr ([], empty_frame)"
  using load_data_readable [of "[data_path \<mapsto> Csv empty_frame]" empty_frame] by simp

theorem load_data_cached_idempotent_witness:
  "load_data_cached None Map.empty =
     (Inr ([Error_box not_found_msg], empty_frame), Some ([Error_box not_found_msg], empty_frame)) \<and>
   load_data_cached (Some ([Error_box not_found_msg], empty_frame)) [data_path \<mapsto> Unreadable] =
     (Inr ([Error_box not_found_msg], empty_frame), Some ([Error_box not_found_msg], empty_frame))"
proof -
  have h: "load_data_cached None Map.empty =
     (Inr ([Error_box not_found_msg], empty_frame), Some ([Error_box not_found_msg], empty_frame))"
    by (simp add: load_data_cached_def cache_data_def load_data_def read_csv_def)
  show ?thesis
    using h load_data_cached_idempotent [OF h, of "[data_path \<mapsto> Unreadable]"] by simp
qed

end
