(* ===== verification/Dashboard.thy ===== *)
theory Dashboard
  imports Counts Loader
begin

text \<open>
  The script of \<^verbatim>\<open>src/dashboard.py\<close> from top to bottom: the page configuration, the cached
  load (\<open>load_data_cached\<close>), the sidebar with its radio button (\<open>sidebar\<close>), and the
  dispatch on the selected page (\<open>render_page\<close>). The analysis page
  \<open>pagina_analise_dados\<close> returns early on an empty DataFrame, reads the \<open>Make\<close>
  column without checking that it exists, and guards the three other views with
  \<open>c in df.columns\<close> (\<open>column_view\<close>). One run of the script is \<open>run_script\<close>;
  the session keeps the process-wide cache and the radio button's widget state, and a
  user event (a rerun, or a click on another page) is one \<open>handle\<close> step. The
  three biographical pages are their fixed element sequences.
\<close>

definition pages :: "page list" where
  "pages = [Home, Formacao, Skills, Analise]"

fun page_label :: "page \<Rightarrow> string" where
  "page_label Home = ''Home''"
| "page_label Formacao = ''Formacao e Experiencia''"
| "page_label Skills = ''Skills''"
| "page_label Analise = ''Analise de Dados''"

fun page_index :: "page \<Rightarrow> nat" where
  "page_index Home = 0"
| "page_index Formacao = 1"
| "page_index Skills = 2"
| "page_index Analise = 3"

definition page_title :: string where
  "page_title = ''CP1 | Fabrini soares ''"

record session =
  cache :: "loaded option"
  navigation :: "page option"

definition init_session :: session where
  "init_session = \<lparr>cache = None, navigation = None\<rparr>"

definition selected :: "session \<Rightarrow> page" where
  "selected s = (case navigation s of None \<Rightarrow> Home | Some p \<Rightarrow> p)"

definition sidebar :: "page \<Rightarrow> element list" where
  "sidebar p =
     [Title ''Fabrini soares'',
      Write ''Estudante de Engenharia de Software'',
      Radio ''Navegue pelas secoes:'' (map page_label pages) (page_index p),
      Write ''---'',
      Write ''Projeto de CP1 - FIAP'',
      Write ''(c) 2023 Fabrini soares'']"

definition pagina_home :: "unit ui" where
  "pagina_home =
     emit [Title ''Fabrini soares'', Markdown ''---'',
       Columns
        [[Subheader ''Informacoes de Contato'',
          Write ''Sao Paulo, vila matilde'',
          Write ''fabriniaraujo23@gmail.com'',
          Write ''+55 (11) 945485574''],
         [Subheader ''Presenca Online'',
          Markdown ''[GitHub](https://github.com/fabriniaraujo23)'']],
       Markdown ''---'',
       Subheader ''Objetivo Profissional'',
       Info (''Busco ativamente por uma oportunidade de Jovem Aprendiz, Estagio, Trainee ou '' @
             ''Junior na area de Tecnologia da Informacao (TI). Meu objetivo e aplicar e '' @
             ''aprofundar meus conhecimentos em programacao e engenharia de software, '' @
             ''contribuindo de forma pratica para projetos e desafios do mercado.'')]"

definition pagina_formacao_experiencia :: "unit ui" where
  "pagina_formacao_experiencia =
     emit [Title ''Formacao Academica e Cursos'', Markdown ''---'',
       Subheader ''Formacao Academica'',
       Markdown ''- **Engenharia de Software** - FIAP (Cursando)'',
       Markdown ''- **Ensino Medio** (Concluido em Dez/2023)'',
       Markdown ''---'',
       Subheader ''Cursos de Aprimoramento'',
       Markdown (unlines
         [''- **Algoritmos: Aprenda a programar** - FIAP (2024)'',
          ''- **Formacao Full stack JavaScript** - ALURA (2024)'',
          ''- **Introducao a Game Design** - Colegio Internacional Radial (2023)''])]"

definition pagina_skills :: "unit ui" where
  "pagina_skills =
     emit [Title ''Habilidades e Competencias'', Markdown ''---'',
       Subheader ''Tech Skills'',
       Columns
        [[Success ''**Linguagens de Programacao**'',
          Markdown (unlines [''- Python'', ''- Java'', ''- JavaScript'', ''- C'', ''- HTML & CSS''])],
         [Success ''**Frameworks, BDs e Ferramentas**'',
          Markdown (unlines [''- React.js, Node.js'', ''- SQL (Oracle, SQLite)'', ''- Git & GitHub'',
                             ''- VSCode, IntelliJ'', ''- Figma''])],
         [Success ''**Conceitos e Outros**'',
          Markdown (unlines [''- Programacao Orientada a Objetos'', ''- Design Thinking'',
                             ''- Pacote Office'', ''- Power BI & Power Query''])]],
       Markdown ''---'',
       Subheader ''Linguas'',
       Markdown (unlines [''- **Portugues**: Nativo'', ''- **Ingles**: Avancado/C1'',
                          ''- **Espanhol**: Basico'']),
       Markdown ''---'',
       Subheader ''Soft Skills'',
       Columns
        [[Markdown (unlines [''Responsabilidade'', ''Inteligencia'', ''Proatividade'', ''Disciplina''])],
         [Markdown (unlines [''Empenho'', ''Respeito'', ''Criatividade''])]]]"

definition column_view :: "dataframe \<Rightarrow> string \<Rightarrow> (cell list \<Rightarrow> element) \<Rightarrow> unit ui" where
  "column_view df c chart =
     (if has_column df c then ui_bind (ui_lift (get_column df c)) (\<lambda>s. emit [chart s])
      else ui_return ())"

definition pagina_analise_dados :: "dataframe \<Rightarrow> unit ui" where
  "pagina_analise_dados df =
     ui_seq (emit [Title ''Analise de Dados: Veiculos Eletricos'', Markdown ''---''])
     (if df_empty df then ui_return ()
      else
        ui_seq (emit [Subheader ''1. Estrutura dos Dados'', Dataframe (head 5 df),
                      Write_shape ''Dimensoes:'' (shape df), Write ''---'',
                      Subheader ''2. Distribuicao por Fabricante (Top 10)''])
        (ui_bind (ui_lift (get_column df ''Make'')) (\<lambda>mk.
          ui_seq (emit [Bar_chart (top_counts 10 mk), Write ''---'',
                        Subheader ''3. Evolucao de Veiculos por Ano de Modelo''])
          (ui_seq (column_view df ''Model Year'' (\<lambda>s. Line_chart (groupby_size s)))
          (ui_seq (emit [Write ''---'', Subheader ''4. Tipos de Veiculos Eletricos''])
          (ui_seq (column_view df ''Electric Vehicle Type'' (\<lambda>s. Pie_chart (value_counts s)))
          (ui_seq (emit [Write ''---'', Subheader ''5. Distribuicao Geografica por Estado''])
            (column_view df ''State'' (\<lambda>s. Choropleth (value_counts s))))))))))"

fun render_page :: "page \<Rightarrow> dataframe \<Rightarrow> unit ui" where
  "render_page Home df = pagina_home"
| "render_page Formacao df = pagina_formacao_experiencia"
| "render_page Skills df = pagina_skills"
| "render_page Analise df = pagina_analise_dados df"

definition run_script :: "session \<Rightarrow> fs \<Rightarrow> unit ui \<times> session" where
  "run_script s fs =
     (let (r, c) = load_data_cached (cache s) fs;
          p = selected s
      in (ui_seq (emit [Page_config page_title])
            (ui_bind (ui_lift r) (\<lambda>(msgs, df).
               ui_seq (emit (msgs @ sidebar p)) (render_page p df))),
          s\<lparr>cache := c\<rparr>))"

datatype event = Rerun fs | Select page fs

fun handle :: "session \<Rightarrow> event \<Rightarrow> unit ui \<times> session" where
  "handle s (Rerun fs) = run_script s fs"
| "handle s (Select p fs) = run_script (s\<lparr>navigation := Some p\<rparr>) fs"

inductive reachable :: "session \<Rightarrow> bool" where
  init: "reachable init_session"
| step: "reachable s \<Longrightarrow> reachable (snd (handle s ev))"

definition cache_ok :: "session \<Rightarrow> bool" where
  "cache_ok s \<longleftrightarrow>
     (case cache s of
        None \<Rightarrow> True
      | Some (msgs, df) \<Rightarrow> msgs = [] \<or> (msgs = [Error_box not_found_msg] \<and> df = empty_frame))"

lemma column_view_eval [ui_simps]:
  "column_view df c chart =
     ((if has_column df c then [chart (projr (get_column df c))] else []), Inr ())"
proof (cases "has_column df c")
  case True
  then obtain s where "get_column df c = Inr s"
    using get_column_present by blast
  with True show ?thesis by (simp add: column_view_def ui_simps emit_def)
next
  case False
  then show ?thesis by (simp add: column_view_def ui_return_def)
qed

lemma run_script_state [simp]:
  "snd (run_script s fs) = s\<lparr>cache := snd (load_data_cached (cache s) fs)\<rparr>"
  by (simp add: run_script_def Let_def split: prod.split)

lemma static_pages_return [simp]:
  "snd pagina_home = Inr ()" "snd pagina_formacao_experiencia = Inr ()" "snd pagina_skills = Inr ()"
  by (simp_all add: pagina_home_def pagina_formacao_experiencia_def pagina_skills_def emit_def)

lemma cache_ok_init: "cache_ok init_session"
  by (simp add: cache_ok_def init_session_def)

lemma cache_ok_step: "cache_ok s \<Longrightarrow> cache_ok (snd (handle s ev))"
proof (cases "cache s")
  case None
  then show ?thesis
    by (cases ev) (auto simp: cache_ok_def load_data_cached_def cache_data_def
        split: sum.splits dest: load_data_cases)
next
  case (Some v)
  assume "cache_ok s"
  with Some show ?thesis
    by (cases ev) (simp_all add: cache_ok_def load_data_cached_def)
qed

text \<open>C1: on a non-empty frame with the four columns the analysis page emits, in order,
  the headings, the first five rows and the shape, the top-ten makes as a bar chart, the
  vehicles per model year, the vehicle types and the states, and returns normally.\<close>

theorem analysis_page_renders:
  assumes "\<not> df_empty df"
    and "get_column df ''Make'' = Inr mk" and "get_column df ''Model Year'' = Inr yr"
    and "get_column df ''Electric Vehicle Type'' = Inr ty" and "get_column df ''State'' = Inr st"
  shows "pagina_analise_dados df =
    ([Title ''Analise de Dados: Veiculos Eletricos'', Markdown ''---'',
      Subheader ''1. Estrutura dos Dados'', Dataframe (head 5 df),
      Write_shape ''Dimensoes:'' (shape df), Write ''---'',
      Subheader ''2. Distribuicao por Fabricante (Top 10)'',
      Bar_chart (top_counts 10 mk), Write ''---'',
      Subheader ''3. Evolucao de Veiculos por Ano de Modelo'',
      Line_chart (groupby_size yr), Write ''---'',
      Subheader ''4. Tipos de Veiculos Eletricos'',
      Pie_chart (value_counts ty), Write ''---'',
      Subheader ''5. Distribuicao Geografica por Estado'',
      Choropleth (value_counts st)], Inr ())"
  using assms by (simp add: pagina_analise_dados_def ui_simps get_column_Inr_has_column)

text \<open>C10: the Make column is read without a guard: a non-empty frame without it stops
  the page with \<open>KeyError\<close> right after the second heading.\<close>

theorem missing_make_raises:
  assumes "\<not> df_empty df" and "\<not> has_column df ''Make''"
  shows "pagina_analise_dados df =
    ([Title ''Analise de Dados: Veiculos Eletricos'', Markdown ''---'',
      Subheader ''1. Estrutura dos Dados'', Dataframe (head 5 df),
      Write_shape ''Dimensoes:'' (shape df), Write ''---'',
      Subheader ''2. Distribuicao por Fabricante (Top 10)''], Inl (KeyError ''Make''))"
  using assms by (simp add: pagina_analise_dados_def ui_simps get_column_absent)

text \<open>C15: an empty frame (no rows or no columns) shows the title and the rule only, with
  no view and no exception.\<close>

theorem empty_frame_no_views:
  "df_empty df \<Longrightarrow>
   pagina_analise_dados df = ([Title ''Analise de Dados: Veiculos Eletricos'', Markdown ''---''], Inr ())"
  by (simp add: pagina_analise_dados_def ui_simps)

text \<open>C14: with a Make column the page never raises, and each of the year, type and
  state views is shown exactly when the frame is non-empty and has its column.\<close>

theorem optional_views_guarded:
  assumes "has_column df ''Make''"
  shows "snd (pagina_analise_dados df) = Inr () \<and>
    ((\<exists>d. Line_chart d \<in> set (fst (pagina_analise_dados df))) \<longleftrightarrow>
       \<not> df_empty df \<and> has_column df ''Model Year'') \<and>
    ((\<exists>d. Pie_chart d \<in> set (fst (pagina_analise_dados df))) \<longleftrightarrow>
       \<not> df_empty df \<and> has_column df ''Electric Vehicle Type'') \<and>
    ((\<exists>d. Choropleth d \<in> set (fst (pagina_analise_dados df))) \<longleftrightarrow>
       \<not> df_empty df \<and> has_column df ''State'')"
proof -
  obtain mk where mk: "get_column df ''Make'' = Inr mk"
    using assms get_column_present by blast
  show ?thesis
    using mk by (simp add: pagina_analise_dados_def ui_simps)
qed

text \<open>C12: once the table is cached, no event (rerun or page change, whatever the file
  system then holds) changes the cached value.\<close>

theorem handle_cache_stable:
  "cache s = Some v \<Longrightarrow> cache (snd (handle s ev)) = Some v"
  by (cases ev) (simp_all add: load_data_cached_def)

text \<open>C11: in every reachable session the cache is empty, or holds a table loaded without
  notice, or the empty fallback with exactly the one not-found notice.\<close>

theorem reachable_cache_ok: "reachable s \<Longrightarrow> cache_ok s"
  by (induction rule: reachable.induct) (simp_all add: cache_ok_init cache_ok_step)

text \<open>C18: choosing a page in the sidebar reruns the script: page configuration, the
  loader's notices, the sidebar whose radio button has the chosen page's label selected,
  then exactly the function of that page (lines 143--150): \<^verbatim>\<open>pagina_home\<close> for
  Home, \<^verbatim>\<open>pagina_formacao_experiencia\<close> for Formacao, \<^verbatim>\<open>pagina_skills\<close> for
  Skills, \<^verbatim>\<open>pagina_analise_dados\<close> on the loaded frame for the analysis page.\<close>

theorem dispatch_renders_selected:
  assumes "load_data_cached (cache s) fs = (Inr (msgs, df), c)"
  shows "handle s (Select p fs) =
     (ui_seq (emit (Page_config page_title # msgs @ sidebar p))
        (case p of
           Home \<Rightarrow> pagina_home
         | Formacao \<Rightarrow> pagina_formacao_experiencia
         | Skills \<Rightarrow> pagina_skills
         | Analise \<Rightarrow> pagina_analise_dados df),
      s\<lparr>cache := c, navigation := Some p\<rparr>) \<and>
    (\<exists>i. Radio ''Navegue pelas secoes:''
           [''Home'', ''Formacao e Experiencia'', ''Skills'', ''Analise de Dados''] i \<in> set (sidebar p) \<and>
         [''Home'', ''Formacao e Experiencia'', ''Skills'', ''Analise de Dados''] ! i =
           (case p of
              Home \<Rightarrow> ''Home''
            | Formacao \<Rightarrow> ''Formacao e Experiencia''
            | Skills \<Rightarrow> ''Skills''
            | Analise \<Rightarrow> ''Analise de Dados''))"
  using assms by (cases p) (auto simp: run_script_def selected_def sidebar_def pages_def ui_simps)

text \<open>C19: when nothing is cached yet and \<^verbatim>\<open>load_data\<close> raises, the script stops right
  after the page configuration with that exception, and the session is left exactly as it
  was: the exception is not cached, so the next run loads again.\<close>

theorem run_script_load_error:
  "cache s = None \<Longrightarrow> load_data fs = Inl e \<Longrightarrow>
   run_script s fs = (([Page_config page_title], Inl e), s)"
  by (simp add: run_script_def load_data_cached_def cache_data_def ui_simps)

text \<open>C20: the three biographical pages never raise and never read the data: their
  output is the same whatever DataFrame was loaded.\<close>

theorem static_pages_pure:
  "p \<noteq> Analise \<Longrightarrow> snd (render_page p df) = Inr () \<and> render_page p df = render_page p df'"
  by (cases p) simp_all

end
