(* ===== verification/Spec2Isabelle.thy ===== *)
theory Spec2Isabelle
  imports Dashboard
begin

text \<open>
  Verification of \<^verbatim>\<open>src/dashboard.py\<close>, a Streamlit portfolio page whose one piece of
  logic is the analysis tab: it loads a CSV of electric vehicles once per process
  (\<^verbatim>\<open>load_data\<close>, cached by \<^verbatim>\<open>st.cache_data\<close>, falling back to an empty DataFrame when
  the file is missing) and shows five views of it computed with pandas: the first rows and
  the shape, the ten most frequent makes (\<^verbatim>\<open>value_counts().head(10)\<close>), the vehicles per
  model year (\<^verbatim>\<open>groupby(...).size()\<close>), the vehicle types and the states
  (\<^verbatim>\<open>value_counts()\<close>). The sidebar's radio button selects one of four pages.

  Theories, in import order:
  \<^item> \<open>Prelude\<close>: the Python exceptions (\<open>exn\<close>), positional lookup \<open>index_of\<close>,
    first-occurrence order \<open>first_seen\<close>, and the counting facts \<open>count_simps\<close>.
  \<^item> \<open>Frame\<close>: the DataFrame (\<open>dataframe\<close> record of column names and rows of
    \<open>cell\<close>s, with a linear order on cells), \<open>df[c]\<close> as \<open>get_column\<close> (raising
    \<open>KeyError\<close>), \<open>c in df.columns\<close>, \<open>df.empty\<close>, \<open>df.shape\<close> and
    \<open>df.head(n)\<close>, with the lemmas that relate \<open>df[c]\<close> to the column test.
  \<^item> \<open>Counts\<close>: pandas' aggregations: \<open>value_counts\<close> as a one-pass hash-table count
    (\<open>count_pass\<close>) followed by a stable sort by descending count, \<open>top_counts\<close> for
    \<open>.head(n)\<close>, \<open>groupby_size\<close>; the reference counts \<open>counts_ref\<close> and the abstract
    multiset specification \<open>counts_mset\<close>. Its lemmas prove both aggregations
    refinements of the multiset of non-missing cells, their exact (value, count) pairs, the
    order of each result (non-increasing counts; strictly ascending keys), and the bounds
    and ranking property of the top-n list. The sort among equal counts is modelled as
    stable (first-seen order); pandas sorts with quicksort, which does not promise this, so
    no property depends on the order of ties.

  \<^item> \<open>Streamlit\<close>: what the script emits (\<open>element\<close>, one constructor per
    \<^verbatim>\<open>st.*\<close> call the page makes; a chart is the data handed to it), statements as
    \<open>'a ui\<close> (emitted elements and an exception or a value, sequenced by \<open>ui_bind\<close>
    and \<open>ui_seq\<close>, so an uncaught exception keeps what was shown before it), and
    \<^verbatim>\<open>st.cache_data\<close> as \<open>cache_data\<close> (a hit returns the stored value and does not
    run the body; exceptions are not stored; emitted elements are stored and replayed).
  \<^item> \<open>Loader\<close>: \<^verbatim>\<open>pd.read_csv\<close> over a file system \<open>fs\<close> (absent path, unreadable
    file, malformed file, or a file holding a table), \<^verbatim>\<open>load_data\<close> (lines 16--24, only
    \<open>FileNotFoundError\<close> caught) and the cached call of line 27. Lemmas: the missing-file
    fallback, the readable case, exactly which files raise, and idempotence of the cache.
  \<^item> \<open>Dashboard\<close>: the sidebar (lines 30--44), \<^verbatim>\<open>pagina_analise_dados\<close> (lines
    98--140: the early return on an empty frame, the unguarded \<open>Make\<close> column, the
    three views guarded by \<open>c in df.columns\<close> as \<open>column_view\<close>), the if/elif
    dispatch (lines 143--150), one run of the script (\<open>run_script\<close>) and the session
    (the process-wide cache and the radio button's widget state) stepped by the events
    \<open>Rerun\<close> and \<open>Select\<close> (\<open>handle\<close>), with the reachable sessions as an
    inductive predicate. Lemmas: the exact element sequence of the analysis page on a
    complete table, the \<open>KeyError\<close> of a missing \<open>Make\<close> column, the guarded views,
    the empty-frame case, the dispatch (each page to its own function), the loader
    exception path (the session is left unchanged), the static pages, and the invariants of
    the cache (written once, never changed; always a loaded table or the single-notice
    fallback), the latter by rule induction over reachable sessions.
  \<^item> This theory: the first run with a missing file, the safety property that every run
    of every reachable session shows at most one error notice, and the witnesses of the
    component theorems, several of them on the spec's five-row sample (\<open>spec_sample\<close>).

  No fuel or bounds are needed: every loop of the program (the counting pass, the sorts,
  the column projection) is structural recursion over the column, and a session is a
  sequence of finitely many events, each a terminating script run.

  Not modelled: the plotting calls' styling arguments (titles, colours, map scope); the
  the biographical pages' emoji and layout widths (their text and element order are
  modelled);
  CSV parsing itself (a readable file is the table it parses to; cells are missing values,
  integers or strings); pandas' behaviour on columns mixing numbers and strings (the
  source's columns are homogeneous as \<^verbatim>\<open>read_csv\<close> infers them); the sharing of
  the cache between concurrent sessions (one session is modelled; the cache is written
  at most once, so other sessions see the same value). Text of the page is kept with its
  accented letters transliterated and its emoji dropped.
\<close>

text \<open>The five-row sample of the spec, with the columns the page reads.\<close>

definition spec_sample :: dataframe where
  "spec_sample =
     \<lparr>df_columns = [''Make'', ''Model Year'', ''Electric Vehicle Type'', ''State''],
      df_rows =
        [[Str ''TESLA'', Num 2022, Str ''BEV'', Str ''CA''],
         [Str ''NISSAN'', Num 2021, Str ''BEV'', Str ''WA''],
         [Str ''TESLA'', Num 2023, Str ''PHEV'', Str ''CA''],
         [Str ''FORD'', Num 2022, Str ''PHEV'', Str ''TX''],
         [Str ''TESLA'', Num 2022, Str ''BEV'', Str ''CA'']]\<rparr>"

lemma render_page_no_error_box: "filter is_error_box (fst (render_page p df)) = []"
proof (cases p)
  case Analise
  then show ?thesis
    by (cases "get_column df ''Make''")
       (simp_all add: pagina_analise_dados_def ui_simps emit_def ui_return_def)
qed (simp_all add: emit_def pagina_home_def pagina_formacao_experiencia_def pagina_skills_def)

lemma sidebar_no_error_box [simp]: "filter is_error_box (sidebar p) = []"
  by (simp add: sidebar_def)


text \<open>C16: in every reachable session, every script run shows at most one error notice:
  the not-found notice of the loader, replayed from the cache on later runs.\<close>

theorem run_at_most_one_notice:
  "reachable s \<Longrightarrow> length (filter is_error_box (fst (fst (handle s ev)))) \<le> 1"
proof -
  assume "reachable s"
  then have ok: "cache_ok s"
    by (induction rule: reachable.induct) (simp_all add: cache_ok_init cache_ok_step)
  show ?thesis
  proof (cases "cache s")
    case None
    then show ?thesis
      by (cases ev) (auto simp: run_script_def Let_def load_data_cached_def cache_data_def ui_simps
          render_page_no_error_box split: sum.splits prod.splits dest!: load_data_cases)
  next
    case (Some v)
    with ok show ?thesis
      by (cases ev) (auto simp: run_script_def Let_def load_data_cached_def cache_ok_def ui_simps
          render_page_no_error_box split: prod.splits)
  qed
qed

text \<open>C17: with the data file missing, the first run shows exactly one not-found notice
  before the sidebar, renders the chosen page on the empty DataFrame without raising, and
  caches the empty fallback.\<close>

theorem missing_file_first_run:
  "fs data_path = None \<Longrightarrow>
   handle init_session (Select p fs) =
     ((Page_config page_title # Error_box not_found_msg # sidebar p @ fst (render_page p empty_frame),
       Inr ()),
      \<lparr>cache = Some ([Error_box not_found_msg], empty_frame), navigation = Some p\<rparr>)"
  by (cases p) (simp_all add: run_script_def init_session_def selected_def load_data_cached_def
      cache_data_def load_data_def read_csv_def pagina_analise_dados_def ui_simps emit_def)


theorem analysis_page_renders_witness:
  "\<not> df_empty spec_sample \<and>
   get_column spec_sample ''Make'' =
     Inr [Str ''TESLA'', Str ''NISSAN'', Str ''TESLA'', Str ''FORD'', Str ''TESLA''] \<and>
   get_column spec_sample ''Model Year'' =
     Inr [Num 2022, Num 2021, Num 2023, Num 2022, Num 2022] \<and>
   get_column spec_sample ''Electric Vehicle Type'' =
     Inr [Str ''BEV'', Str ''BEV'', Str ''PHEV'', Str ''PHEV'', Str ''BEV''] \<and>
   get_column spec_sample ''State'' =
     Inr [Str ''CA'', Str ''WA'', Str ''CA'', Str ''TX'', Str ''CA''] \<and>
   pagina_analise_dados spec_sample =
    ([Title ''Analise de Dados: Veiculos Eletricos'', Markdown ''---'',
      Subheader ''1. Estrutura dos Dados'', Dataframe (head 5 spec_sample),
      Write_shape ''Dimensoes:'' (shape spec_sample), Write ''---'',
      Subheader ''2. Distribuicao por Fabricante (Top 10)'',
      Bar_chart (top_counts 10 [Str ''TESLA'', Str ''NISSAN'', Str ''TESLA'', Str ''FORD'', Str ''TESLA'']),
      Write ''---'', Subheader ''3. Evolucao de Veiculos por Ano de Modelo'',
      Line_chart (groupby_size [Num 2022, Num 2021, Num 2023, Num 2022, Num 2022]), Write ''---'',
      Subheader ''4. Tipos de Veiculos Eletricos'',
      Pie_chart (value_counts [Str ''BEV'', Str ''BEV'', Str ''PHEV'', Str ''PHEV'', Str ''BEV'']),
      Write ''---'', Subheader ''5. Distribuicao Geografica por Estado'',
      Choropleth (value_counts [Str ''CA'', Str ''WA'', Str ''CA'', Str ''TX'', Str ''CA''])], Inr ())"
proof -
  have h1: "\<not> df_empty spec_sample" by (simp add: spec_sample_def df_empty_def)
  have h2: "get_column spec_sample ''Make'' =
     Inr [Str ''TESLA'', Str ''NISSAN'', Str ''TESLA'', Str ''FORD'', Str ''TESLA'']"
    by (simp add: spec_sample_def get_column_def)
  have h3: "get_column spec_sample ''Model Year'' =
     Inr [Num 2022, Num 2021, Num 2023, Num 2022, Num 2022]"
    by (simp add: spec_sample_def get_column_def)
  have h4: "get_column spec_sample ''Electric Vehicle Type'' =
     Inr [Str ''BEV'', Str ''BEV'', Str ''PHEV'', Str ''PHEV'', Str ''BEV'']"
    by (simp add: spec_sample_def get_column_def)
  have h5: "get_column spec_sample ''State'' =
     Inr [Str ''CA'', Str ''WA'', Str ''CA'', Str ''TX'', Str ''CA'']"
    by (simp add: spec_sample_def get_column_def)
  show ?thesis
    by (intro conjI h1 h2 h3 h4 h5 analysis_page_renders [OF h1 h2 h3 h4 h5])
qed

theorem missing_make_raises_witness:
  "\<not> df_empty \<lparr>df_columns = [''State''], df_rows = [[Str ''CA'']]\<rparr> \<and>
   \<not> has_column \<lparr>df_columns = [''State''], df_rows = [[Str ''CA'']]\<rparr> ''Make'' \<and>
   snd (pagina_analise_dados \<lparr>df_columns = [''State''], df_rows = [[Str ''CA'']]\<rparr>) =
     Inl (KeyError ''Make'')"
proof -
  have h1: "\<not> df_empty \<lparr>df_columns = [''State''], df_rows = [[Str ''CA'']]\<rparr>"
    by (simp add: df_empty_def)
  have h2: "\<not> has_column \<lparr>df_columns = [''State''], df_rows = [[Str ''CA'']]\<rparr> ''Make''"
    by (simp add: has_column_def)
  show ?thesis using h1 h2 missing_make_raises [OF h1 h2] by simp
qed

theorem empty_frame_no_views_witness:
  "df_empty empty_frame \<and>
   pagina_analise_dados empty_frame =
     ([Title ''Analise de Dados: Veiculos Eletricos'', Markdown ''---''], Inr ())"
  using empty_frame_no_views [of empty_frame] by simp

theorem optional_views_guarded_witness:
  "has_column \<lparr>df_columns = [''Make''], df_rows = [[Str ''TESLA'']]\<rparr> ''Make'' \<and>
   snd (pagina_analise_dados \<lparr>df_columns = [''Make''], df_rows = [[Str ''TESLA'']]\<rparr>) = Inr () \<and>
   \<not> (\<exists>d. Choropleth d \<in> set (fst (pagina_analise_dados
          \<lparr>df_columns = [''Make''], df_rows = [[Str ''TESLA'']]\<rparr>)))"
proof -
  have h: "has_column \<lparr>df_columns = [''Make''], df_rows = [[Str ''TESLA'']]\<rparr> ''Make''"
    by (simp add: has_column_def)
  show ?thesis using h optional_views_guarded [OF h] by (simp add: has_column_def)
qed

theorem handle_cache_stable_witness:
  "cache \<lparr>cache = Some ([], spec_sample), navigation = None\<rparr> = Some ([], spec_sample) \<and>
   cache (snd (handle \<lparr>cache = Some ([], spec_sample), navigation = None\<rparr> (Rerun Map.empty))) =
     Some ([], spec_sample)"
  using handle_cache_stable [of "\<lparr>cache = Some ([], spec_sample), navigation = None\<rparr>"
      "([], spec_sample)" "Rerun Map.empty"] by simp

theorem reachable_cache_ok_witness:
  "reachable (snd (handle init_session (Rerun Map.empty))) \<and>
   cache_ok (snd (handle init_session (Rerun Map.empty)))"
proof -
  have h: "reachable (snd (handle init_session (Rerun Map.empty)))"
    by (rule reachable.step [OF reachable.init])
  show ?thesis using h reachable_cache_ok [OF h] by simp
qed

theorem dispatch_renders_selected_witness:
  "load_data_cached (cache init_session) [data_path \<mapsto> Csv spec_sample] =
     (Inr ([], spec_sample), Some ([], spec_sample)) \<and>
   handle init_session (Select Skills [data_path \<mapsto> Csv spec_sample]) =
     (ui_seq (emit (Page_config page_title # [] @ sidebar Skills)) pagina_skills,
      init_session\<lparr>cache := Some ([], spec_sample), navigation := Some Skills\<rparr>)"
proof -
  have h: "load_data_cached (cache init_session) [data_path \<mapsto> Csv spec_sample] =
     (Inr ([], spec_sample), Some ([], spec_sample))"
    by (simp add: init_session_def load_data_cached_def cache_data_def load_data_def read_csv_def)
  show ?thesis using h dispatch_renders_selected [OF h, of Skills] by simp
qed

theorem run_script_load_error_witness:
  "cache init_session = None \<and>
   load_data [data_path \<mapsto> Unreadable] = Inl (PermissionError data_path) \<and>
   run_script init_session [data_path \<mapsto> Unreadable] =
     (([Page_config page_title], Inl (PermissionError data_path)), init_session)"
proof -
  have h1: "cache init_session = None" by (simp add: init_session_def)
  have h2: "load_data [data_path \<mapsto> Unreadable] = Inl (PermissionError data_path)"
    by (simp add: load_data_def read_csv_def)
  show ?thesis using h1 h2 run_script_load_error [OF h1 h2] by simp
qed

theorem run_at_most_one_notice_witness:
  "reachable init_session \<and>
   length (filter is_error_box (fst (fst (handle init_session (Rerun Map.empty))))) \<le> 1"
  using run_at_most_one_notice [OF reachable.init, of "Rerun Map.empty"] reachable.init by simp

theorem missing_file_first_run_witness:
  "Map.empty data_path = None \<and>
   handle init_session (Select Analise Map.empty) =
     ((Page_config page_title # Error_box not_found_msg # sidebar Analise @
         fst (render_page Analise empty_frame), Inr ()),
      \<lparr>cache = Some ([Error_box not_found_msg], empty_frame), navigation = Some Analise\<rparr>)"
  using missing_file_first_run [of Map.empty Analise] by simp

theorem static_pages_pure_witness:
  "Skills \<noteq> Analise \<and> snd (render_page Skills spec_sample) = Inr () \<and>
   render_page Skills spec_sample = render_page Skills empty_frame"
  using static_pages_pure [of Skills spec_sample empty_frame] by simp

end
